theory Spec2Isabelle
  imports Complex_Main
begin

section \<open>The vmForks pool of vitest (packages/vitest/src/node/pools/vmForks.ts)\<close>

text \<open>
  A shallow embedding of \<^verbatim>\<open>vmForks.ts\<close>. JavaScript numbers that count things (processing
  units, worker counts, task identifiers) are \<open>int\<close> or \<open>nat\<close>; numbers that measure memory
  are exact rationals, so the rounding of IEEE doubles is not part of the model. A value that
  may be \<^verbatim>\<open>undefined\<close> or \<^verbatim>\<open>null\<close> is an \<open>option\<close>.
\<close>

subsection \<open>Regular expressions and \<^verbatim>\<open>stringifyRegex\<close>\<close>

text \<open>A \<^verbatim>\<open>RegExp\<close> object, by its source text and its flags. \<^verbatim>\<open>RegExp.prototype.toString\<close>
  gives the literal form \<^verbatim>\<open>/source/flags\<close>.\<close>

datatype RegExp = RegExp (source: string) (flags: string)

definition RegExp_toString :: "RegExp \<Rightarrow> string" where
  "RegExp_toString r = ''/'' @ source r @ ''/'' @ flags r"

text \<open>The argument type \<^verbatim>\<open>RegExp | string\<close>.\<close>

datatype pattern = Pattern RegExp | Plain string

definition marker :: string where
  "marker = ''$$vitest:''"

fun stringifyRegex :: "pattern \<Rightarrow> string" where
  "stringifyRegex (Plain input) = input"
| "stringifyRegex (Pattern input) = marker @ RegExp_toString input"

text \<open>JavaScript truthiness of an optional \<^verbatim>\<open>RegExp | string\<close>: \<^verbatim>\<open>undefined\<close> and the empty
  string are falsy, every object is truthy.\<close>

fun truthy :: "pattern option \<Rightarrow> bool" where
  "truthy None = False"
| "truthy (Some (Plain s)) = (s \<noteq> [])"
| "truthy (Some (Pattern r)) = True"

subsection \<open>Configuration\<close>

text \<open>\<^verbatim>\<open>memoryLimit\<close> values have the type \<^verbatim>\<open>number | string\<close>.\<close>

datatype limit = Num rat | Str string

record vmForksOptions =
  maxForks :: "int option"
  singleFork :: "bool option"
  vm_execArgv :: "string list option"

record poolOptions =
  vmForks :: "vmForksOptions option"

text \<open>The fields of \<^verbatim>\<open>ResolvedConfig\<close> that the file reads; \<open>other\<close> stands for all the
  fields it only passes on.\<close>

record ResolvedConfig =
  watch :: bool
  maxWorkers :: "int option"
  minWorkers :: "int option"
  poolOptions :: "poolOptions option"
  fileParallelism :: bool
  teardownTimeout :: int
  root :: string
  config_name :: string
  testNamePattern :: "pattern option"
  other :: string

subsection \<open>\<^verbatim>\<open>getMemoryLimit\<close>\<close>

text \<open>
  \<^verbatim>\<open>getWorkerMemoryLimit\<close> and \<^verbatim>\<open>stringToBytes\<close> are imported from
  \<^verbatim>\<open>utils/memory-limit\<close>; here they are parameters. \<^verbatim>\<open>nodeos.totalmem()\<close> is \<open>Some m\<close> when
  \<^verbatim>\<open>typeof memory === 'number'\<close> and \<open>None\<close> otherwise. \<^verbatim>\<open>limit.at(-1)\<close> is the last
  character, \<^verbatim>\<open>undefined\<close> for the empty string.
\<close>

definition at_last :: "string \<Rightarrow> char option" where
  "at_last s = (if s = [] then None else Some (last s))"

definition getMemoryLimit ::
  "(ResolvedConfig \<Rightarrow> limit) \<Rightarrow> (limit \<Rightarrow> rat option \<Rightarrow> rat option) \<Rightarrow> rat option
    \<Rightarrow> ResolvedConfig \<Rightarrow> rat option" where
  "getMemoryLimit getWorkerMemoryLimit stringToBytes totalmem config =
     (let memory = totalmem;
          limit = getWorkerMemoryLimit config
      in case memory of
           Some m \<Rightarrow> stringToBytes limit (Some (if watch config then m / 2 else m))
         | None \<Rightarrow>
             if (case limit of Num n \<Rightarrow> n > 1 | Str s \<Rightarrow> False)
                \<or> (case limit of Str s \<Rightarrow> at_last s \<noteq> Some CHR ''%'' | Num n \<Rightarrow> False)
             then stringToBytes limit None
             else None)"

text \<open>
  Modelled from the spec: \<^verbatim>\<open>stringToBytes\<close> of \<^verbatim>\<open>utils/memory-limit\<close> is not among the
  sources. The specification says of it: a literal byte count is used as it is; a ratio
  \<open>\<le> 1\<close> or a percentage string is multiplied against the baseline; without a baseline a
  ratio or a percentage yields no ceiling; a string without a trailing percent sign resolves
  to a byte count by a numeric scaling rule. The reading of the digits of a percentage and
  the scaling rule are the parameters \<open>parseFloat\<close> and \<open>scale\<close>.
\<close>

definition numberToBytes :: "rat \<Rightarrow> rat option \<Rightarrow> rat option" where
  "numberToBytes n reference =
     (if n > 1 then Some n
      else case reference of Some b \<Rightarrow> Some (n * b) | None \<Rightarrow> None)"

definition spec_stringToBytes ::
  "(string \<Rightarrow> rat) \<Rightarrow> (string \<Rightarrow> rat) \<Rightarrow> limit \<Rightarrow> rat option \<Rightarrow> rat option" where
  "spec_stringToBytes parseFloat scale input reference =
     (case input of
        Num n \<Rightarrow> numberToBytes n reference
      | Str s \<Rightarrow>
          if at_last s = Some CHR ''%''
          then (case reference of
                  Some b \<Rightarrow> Some (parseFloat (butlast s) / 100 * b)
                | None \<Rightarrow> None)
          else numberToBytes (scale s) reference)"

text \<open>A reader of plain decimal numerals (digits only), for concrete percentages.\<close>

definition digit_value :: "char \<Rightarrow> nat" where
  "digit_value c = of_char c - 48"

definition decimal :: "string \<Rightarrow> rat" where
  "decimal s = of_nat (foldl (\<lambda>acc c. acc * 10 + digit_value c) 0 s)"

subsection \<open>Pool construction: \<^verbatim>\<open>createVmForksPool\<close>\<close>

text \<open>\<open>numCpus\<close> is \<^verbatim>\<open>nodeos.availableParallelism()\<close> (or \<^verbatim>\<open>nodeos.cpus().length\<close>), an
  integer, so that \<^verbatim>\<open>Math.floor(numCpus / 2)\<close> is \<open>numCpus div 2\<close>.\<close>

definition threadsCount :: "ResolvedConfig \<Rightarrow> int \<Rightarrow> int" where
  "threadsCount config numCpus =
     (if watch config then max (numCpus div 2) 1 else max (numCpus - 1) 1)"

text \<open>\<^verbatim>\<open>ctx.config.poolOptions?.vmForks ?? {}\<close>\<close>

definition empty_vmForksOptions :: vmForksOptions where
  "empty_vmForksOptions = \<lparr>maxForks = None, singleFork = None, vm_execArgv = None\<rparr>"

definition get_poolOptions :: "ResolvedConfig \<Rightarrow> vmForksOptions" where
  "get_poolOptions config =
     (case poolOptions config of
        None \<Rightarrow> empty_vmForksOptions
      | Some p \<Rightarrow> (case vmForks p of None \<Rightarrow> empty_vmForksOptions | Some v \<Rightarrow> v))"

text \<open>The nullish coalescing operator \<^verbatim>\<open>??\<close>.\<close>

definition nullish :: "'a option \<Rightarrow> 'a \<Rightarrow> 'a" where
  "nullish a b = (case a of Some v \<Rightarrow> v | None \<Rightarrow> b)"

record TinypoolOptions =
  runtime :: string
  filename :: string
  maxThreads :: int
  minThreads :: int
  env :: "(string \<times> string) list"
  execArgv :: "string list"
  terminateTimeout :: int
  concurrentTasksPerWorker :: int
  maxMemoryLimitBeforeRecycle :: "rat option"

text \<open>What the constructor reads from outside the configuration: the host
  (\<^verbatim>\<open>node:os\<close>), the paths it resolves, and its \<^verbatim>\<open>PoolProcessOptions\<close> argument.\<close>

record host =
  numCpus :: int
  totalmem :: "rat option"
  suppressWarningsPath :: string
  worker_filename :: string
  proc_execArgv :: "string list"
  proc_env :: "(string \<times> string) list"

text \<open>\<^verbatim>\<open>x || undefined\<close> on a number or \<^verbatim>\<open>null\<close>: \<^verbatim>\<open>null\<close> and 0 become \<^verbatim>\<open>undefined\<close>.\<close>

definition or_undefined :: "rat option \<Rightarrow> rat option" where
  "or_undefined v = (case v of None \<Rightarrow> None | Some x \<Rightarrow> if x = 0 then None else Some x)"

text \<open>The \<^verbatim>\<open>options\<close> with which the constructor creates the \<^verbatim>\<open>Tinypool\<close>, after the
  final \<^verbatim>\<open>if\<close>.\<close>

definition pool_options ::
  "(ResolvedConfig \<Rightarrow> limit) \<Rightarrow> (limit \<Rightarrow> rat option \<Rightarrow> rat option) \<Rightarrow> host
    \<Rightarrow> ResolvedConfig \<Rightarrow> TinypoolOptions" where
  "pool_options getWorkerMemoryLimit stringToBytes h config =
     (let threadsCount' = threadsCount config (numCpus h);
          poolOptions' = get_poolOptions config;
          maxThreads' = nullish (maxForks poolOptions') (nullish (maxWorkers config) threadsCount');
          minThreads' = nullish (maxForks poolOptions') (nullish (minWorkers config) threadsCount');
          options = \<lparr>
            runtime = ''child_process'',
            filename = worker_filename h,
            maxThreads = maxThreads',
            minThreads = minThreads',
            env = proc_env h,
            execArgv =
              [''--experimental-import-meta-resolve'', ''--experimental-vm-modules'',
               ''--require'', suppressWarningsPath h]
              @ nullish (vm_execArgv poolOptions') [] @ proc_execArgv h,
            terminateTimeout = teardownTimeout config,
            concurrentTasksPerWorker = 1,
            maxMemoryLimitBeforeRecycle =
              or_undefined (getMemoryLimit getWorkerMemoryLimit stringToBytes (totalmem h) config)
          \<rparr>
      in if singleFork poolOptions' = Some True \<or> \<not> fileParallelism config
         then options\<lparr>maxThreads := 1, minThreads := 1\<rparr>
         else options)"

subsection \<open>Projects and the memoised configuration: \<^verbatim>\<open>getConfig\<close>\<close>

text \<open>A \<^verbatim>\<open>WorkspaceProject\<close>, by what the file asks of it: \<^verbatim>\<open>getName()\<close>,
  \<^verbatim>\<open>getSerializableConfig()\<close>, \<^verbatim>\<open>getProvidedContext()\<close> and \<^verbatim>\<open>config\<close>. \<open>project_id\<close>
  tells two project objects apart.\<close>

record WorkspaceProject =
  project_id :: nat
  project_name :: string
  serializableConfig :: ResolvedConfig
  project_providedContext :: string
  project_config :: ResolvedConfig

text \<open>The \<^verbatim>\<open>Map\<close> from projects to configurations, and \<^verbatim>\<open>getConfig\<close>, which returns the
  configuration and the updated map.\<close>

type_synonym configs = "WorkspaceProject \<rightharpoonup> ResolvedConfig"

definition getConfig :: "configs \<Rightarrow> WorkspaceProject \<Rightarrow> ResolvedConfig \<times> configs" where
  "getConfig configs project =
     (case configs project of
        Some c \<Rightarrow> (c, configs)
      | None \<Rightarrow>
          let config' = serializableConfig project;
              config = config'\<lparr>testNamePattern :=
                (case testNamePattern config' of
                   None \<Rightarrow> None
                 | Some p \<Rightarrow>
                     if truthy (Some p) then Some (Plain (stringifyRegex p)) else None)\<rparr>
          in (config, configs(project \<mapsto> config)))"

subsection \<open>Rejections\<close>

text \<open>A value a promise can reject with: an \<^verbatim>\<open>Error\<close> object with its message, or any other
  value, kept by its textual form.\<close>

datatype js_value = Error string | NonError string

text \<open>\<^verbatim>\<open>/pat/.test(s)\<close> for a pattern without metacharacters: \<open>pat\<close> occurs in \<open>s\<close>.\<close>

fun regex_test :: "string \<Rightarrow> string \<Rightarrow> bool" where
  "regex_test pat [] = (pat = [])"
| "regex_test pat (c # cs) = (take (length pat) (c # cs) = pat \<or> regex_test pat cs)"

text \<open>\<^verbatim>\<open>error instanceof Error && /pat/.test(error.message)\<close>\<close>

fun error_matches :: "string \<Rightarrow> js_value \<Rightarrow> bool" where
  "error_matches pat (Error message) = regex_test pat message"
| "error_matches pat (NonError v) = False"

text \<open>\<^verbatim>\<open>files.join(sep)\<close>\<close>

fun join :: "string \<Rightarrow> string list \<Rightarrow> string" where
  "join sep [] = []"
| "join sep [x] = x"
| "join sep (x # y # ys) = x @ sep @ join sep (y # ys)"

subsection \<open>The state the pool works on\<close>

record ContextRPC =
  pool :: string
  worker :: string
  config :: ResolvedConfig
  files :: "string list"
  invalidates :: "string list"
  environment :: string
  workerId :: nat
  projectName :: string
  providedContext :: string

text \<open>An \<^verbatim>\<open>EventEmitter\<close> is the list of its registered listeners, each under its event
  name. The listeners are the message handler that \<^verbatim>\<open>createBirpc\<close> registers through its
  \<^verbatim>\<open>on\<close> option, and the callbacks the pool registers through \<^verbatim>\<open>channel.onMessage\<close>.\<close>

datatype listener = RpcHandler | PoolCallback nat

type_synonym EventEmitter = "(string \<times> listener) list"

text \<open>\<^verbatim>\<open>ctx.state\<close> is not part of the file: it is kept as the sequence of the calls made on
  it. So are the callbacks given to \<^verbatim>\<open>ctx.onCancel\<close> and the calls of \<^verbatim>\<open>pool.run\<close>.\<close>

datatype state_call =
    ClearFiles WorkspaceProject "string list"
  | AddProcessTimeoutCause string
  | CancelFiles "string list" string string

datatype cancel_listener = CancelPendingTasks | RpcOnCancel nat

text \<open>\<open>emitters\<close> is the heap of emitter objects, an emitter's address being its index;
  \<open>id_counter\<close> is the variable \<^verbatim>\<open>id\<close> of the closure of \<^verbatim>\<open>runWithFiles\<close>.\<close>

record world =
  state :: "state_call list"
  onCancel :: "cancel_listener list"
  emitters :: "EventEmitter list"
  pool_runs :: "ContextRPC list"
  id_counter :: nat

subsection \<open>\<^verbatim>\<open>createChildProcessChannel\<close>\<close>

definition emitter_on :: "nat \<Rightarrow> string \<Rightarrow> listener \<Rightarrow> world \<Rightarrow> world" where
  "emitter_on a event l w = w\<lparr>emitters := (emitters w)[a := emitters w ! a @ [(event, l)]]\<rparr>"

definition removeAllListeners :: "nat \<Rightarrow> world \<Rightarrow> world" where
  "removeAllListeners a w = w\<lparr>emitters := (emitters w)[a := []]\<rparr>"

text \<open>The function returns \<^verbatim>\<open>{ channel, cleanup }\<close>, two closures over the new emitter: the
  model returns the emitter's address. \<^verbatim>\<open>cleanup\<close> is \<open>removeAllListeners\<close> at that address.\<close>

definition createChildProcessChannel :: "WorkspaceProject \<Rightarrow> world \<Rightarrow> nat \<times> world" where
  "createChildProcessChannel project w =
     (let emitter = length (emitters w);
          w1 = w\<lparr>emitters := emitters w @ [[]]\<rparr>;
          w2 = emitter_on emitter ''response'' RpcHandler w1;
          w3 = w2\<lparr>onCancel := onCancel w2 @ [RpcOnCancel emitter]\<rparr>
      in (emitter, w3))"

subsection \<open>\<^verbatim>\<open>runFiles\<close>\<close>

text \<open>
  \<^verbatim>\<open>runFiles\<close> is an async function with one \<^verbatim>\<open>await\<close>. \<open>runFiles_start\<close> is the part that
  runs when it is called, up to the call of \<^verbatim>\<open>pool.run\<close>; \<open>runFiles_settle\<close> is the part
  that runs when the promise of \<^verbatim>\<open>pool.run\<close> settles: the \<^verbatim>\<open>catch\<close> and \<^verbatim>\<open>finally\<close> blocks.
  Between the two the function holds a \<open>task\<close>.
\<close>

record task =
  task_project :: WorkspaceProject
  data :: ContextRPC
  channel :: nat

definition runFiles_start ::
  "string \<Rightarrow> WorkspaceProject \<Rightarrow> ResolvedConfig \<Rightarrow> string list \<Rightarrow> string \<Rightarrow> string list
    \<Rightarrow> world \<Rightarrow> task \<times> world" where
  "runFiles_start worker' project config' files' environment' invalidates' w =
     (let w1 = w\<lparr>state := state w @ [ClearFiles project files']\<rparr>;
          (channel', w2) = createChildProcessChannel project w1;
          workerId' = id_counter w2 + 1;
          w3 = w2\<lparr>id_counter := workerId'\<rparr>;
          data' = \<lparr>
            pool = ''forks'',
            worker = worker',
            config = config',
            files = files',
            invalidates = invalidates',
            environment = environment',
            workerId = workerId',
            projectName = project_name project,
            providedContext = project_providedContext project\<rparr>;
          w4 = w3\<lparr>pool_runs := pool_runs w3 @ [data']\<rparr>
      in (\<lparr>task_project = project, data = data', channel = channel'\<rparr>, w4))"

text \<open>What the pool does with one task, which the file does not decide: how often it calls
  \<^verbatim>\<open>channel.onMessage\<close> while the task runs, how the promise of \<^verbatim>\<open>pool.run\<close> settles
  (\<open>None\<close>: it resolves; \<open>Some e\<close>: it rejects with \<open>e\<close>), and the value of
  \<^verbatim>\<open>ctx.isCancelling\<close> when it does. The \<^verbatim>\<open>name\<close> option of \<^verbatim>\<open>pool.run\<close> selects the
  worker's entry function and is left out.\<close>

record run_behaviour =
  onMessage_calls :: nat
  outcome :: "js_value option"
  isCancelling :: bool

datatype PromiseSettledResult = fulfilled | rejected js_value

definition pool_run :: "task \<Rightarrow> run_behaviour \<Rightarrow> world \<Rightarrow> world" where
  "pool_run t b w =
     foldl (\<lambda>w' k. emitter_on (channel t) ''message'' (PoolCallback k) w') w
       [0..<onMessage_calls b]"

definition runFiles_settle ::
  "ResolvedConfig \<Rightarrow> task \<Rightarrow> run_behaviour \<Rightarrow> world \<Rightarrow> PromiseSettledResult \<times> world" where
  "runFiles_settle ctx_config t b w =
     (let files' = files (data t);
          w1 = pool_run t b w;
          (result, w2) =
            (case outcome b of
               None \<Rightarrow> (fulfilled, w1)
             | Some error \<Rightarrow>
                 if error_matches ''Failed to terminate worker'' error
                 then (fulfilled, w1\<lparr>state := state w1 @
                   [AddProcessTimeoutCause
                     (''Failed to terminate worker while running '' @ join '', '' files' @ ''.'')]\<rparr>)
                 else if isCancelling b \<and> error_matches ''The task has been cancelled'' error
                 then (fulfilled, w1\<lparr>state := state w1 @
                   [CancelFiles files' (root ctx_config)
                     (config_name (project_config (task_project t)))]\<rparr>)
                 else (rejected error, w1))
      in (result, removeAllListeners (channel t) w2))"

subsection \<open>The dispatch function returned by \<^verbatim>\<open>runWithFiles\<close>\<close>

text \<open>\<^verbatim>\<open>groupFilesByEnv\<close> is imported; its resolved value is a parameter: an object whose
  values are arrays of \<^verbatim>\<open>{ file, environment, project }\<close>.\<close>

record file_spec =
  spec_file :: string
  spec_environment :: string
  spec_project :: WorkspaceProject

text \<open>The synchronous \<^verbatim>\<open>promises.map(...)\<close>: every \<^verbatim>\<open>runFiles\<close> call runs up to its
  \<^verbatim>\<open>await\<close>, in the order of the array.\<close>

fun start_all ::
  "string \<Rightarrow> string list \<Rightarrow> file_spec list \<Rightarrow> configs \<Rightarrow> world \<Rightarrow> task list \<times> configs \<times> world" where
  "start_all worker' invalidates' [] configs w = ([], configs, w)"
| "start_all worker' invalidates' (u # us) configs w =
     (let (config', configs') = getConfig configs (spec_project u);
          (t, w') = runFiles_start worker' (spec_project u) config' [spec_file u]
                      (spec_environment u) invalidates' w;
          (ts, configs'', w'') = start_all worker' invalidates' us configs' w'
      in (t # ts, configs'', w''))"

text \<open>
  The promises settle in an order the pool decides: \<open>order\<close> lists the indices of the tasks
  whose \<^verbatim>\<open>pool.run\<close> promise settles, in time. \<open>results\<close> is the array that
  \<^verbatim>\<open>Promise.allSettled\<close> fills, \<open>None\<close> where a promise is still pending.
\<close>

definition settle_one ::
  "ResolvedConfig \<Rightarrow> (ContextRPC \<Rightarrow> run_behaviour) \<Rightarrow> task list \<Rightarrow>
    PromiseSettledResult option list \<times> world \<Rightarrow> nat \<Rightarrow> PromiseSettledResult option list \<times> world" where
  "settle_one ctx_config behaviour ts s i =
     (let (results, w) = s
      in if i < length ts \<and> results ! i = None
         then let (r, w') = runFiles_settle ctx_config (ts ! i) (behaviour (data (ts ! i))) w
              in (results[i := Some r], w')
         else (results, w))"

definition settle_all ::
  "ResolvedConfig \<Rightarrow> (ContextRPC \<Rightarrow> run_behaviour) \<Rightarrow> task list \<Rightarrow> nat list \<Rightarrow> world
    \<Rightarrow> PromiseSettledResult option list \<times> world" where
  "settle_all ctx_config behaviour ts order w =
     foldl (settle_one ctx_config behaviour ts) (replicate (length ts) None, w) order"

datatype AggregateError = AggregateError "js_value list" string

fun rejection :: "PromiseSettledResult option \<Rightarrow> js_value list" where
  "rejection (Some (rejected e)) = [e]"
| "rejection _ = []"

text \<open>The dispatch function. Its result is \<open>None\<close> while a promise is pending (then
  \<^verbatim>\<open>Promise.allSettled\<close> has not resolved and the call has not returned), \<open>Some (Inl e)\<close>
  when it throws \<open>e\<close>, and \<open>Some (Inr ())\<close> when it resolves.\<close>

definition runTests ::
  "ResolvedConfig \<Rightarrow> string \<Rightarrow> (ContextRPC \<Rightarrow> run_behaviour) \<Rightarrow> nat list
    \<Rightarrow> (string \<times> file_spec list) list \<Rightarrow> string list \<Rightarrow> world
    \<Rightarrow> (AggregateError + unit) option \<times> world" where
  "runTests ctx_config worker' behaviour order filesByEnv invalidates' w =
     (let w0 = w\<lparr>onCancel := onCancel w @ [CancelPendingTasks]\<rparr>;
          promises = concat (map snd filesByEnv);
          (ts, configs', w1) = start_all worker' invalidates' promises Map.empty w0;
          (results, w2) = settle_all ctx_config behaviour ts order w1
      in if list_all (\<lambda>r. r \<noteq> None) results
         then let errors = concat (map rejection results)
              in (Some (if length errors > 0
                        then Inl (AggregateError errors
                          ''Errors occurred while running tests. For more information, see serialized error.'')
                        else Inr ()), w2)
         else (None, w2))"

text \<open>\<^verbatim>\<open>runWithFiles(name)\<close> creates the closure: \<^verbatim>\<open>let id = 0\<close>.\<close>

definition runWithFiles :: "world \<Rightarrow> world" where
  "runWithFiles w = w\<lparr>id_counter := 0\<rparr>"

text \<open>The tasks that one call of the dispatch function submits, and the errors an
  \<^verbatim>\<open>AggregateError\<close> carries (none when the call does not throw).\<close>

definition dispatched ::
  "string \<Rightarrow> (string \<times> file_spec list) list \<Rightarrow> string list \<Rightarrow> world \<Rightarrow> task list" where
  "dispatched worker' filesByEnv invalidates' w =
     fst (start_all worker' invalidates' (concat (map snd filesByEnv)) Map.empty
            (w\<lparr>onCancel := onCancel w @ [CancelPendingTasks]\<rparr>))"

fun errors_of :: "(AggregateError + unit) option \<Rightarrow> js_value list" where
  "errors_of (Some (Inl (AggregateError errors m))) = errors"
| "errors_of _ = []"


subsection \<open>The outcome taxonomy of the specification\<close>

text \<open>
  The specification classifies what happens to a task, in priority order: the worker could
  not be terminated; else an external cancellation is in effect and the task was
  cancelled; else the error is genuine. \<open>classify\<close> follows these words; that
  \<open>runFiles_settle\<close> agrees with it is proved below.
\<close>

datatype classification =
    Success
  | WorkerTerminationTimeout
  | IntentionalCancellation
  | GenuineTaskError js_value

definition classify :: "run_behaviour \<Rightarrow> classification" where
  "classify b =
     (case outcome b of
        None \<Rightarrow> Success
      | Some e \<Rightarrow>
          if error_matches ''Failed to terminate worker'' e then WorkerTerminationTimeout
          else if isCancelling b \<and> error_matches ''The task has been cancelled'' e
          then IntentionalCancellation
          else GenuineTaskError e)"

fun genuine_errors :: "classification \<Rightarrow> js_value list" where
  "genuine_errors (GenuineTaskError e) = [e]"
| "genuine_errors _ = []"

fun settled_as :: "classification \<Rightarrow> PromiseSettledResult" where
  "settled_as (GenuineTaskError e) = rejected e"
| "settled_as _ = fulfilled"

fun settle_calls :: "ResolvedConfig \<Rightarrow> task \<Rightarrow> classification \<Rightarrow> state_call list" where
  "settle_calls ctx_config t WorkerTerminationTimeout =
     [AddProcessTimeoutCause
        (''Failed to terminate worker while running '' @ join '', '' (files (data t)) @ ''.'')]"
| "settle_calls ctx_config t IntentionalCancellation =
     [CancelFiles (files (data t)) (root ctx_config)
        (config_name (project_config (task_project t)))]"
| "settle_calls ctx_config t _ = []"

subsection \<open>Concrete inputs\<close>

definition example_config :: ResolvedConfig where
  "example_config = \<lparr>watch = False, maxWorkers = None, minWorkers = None, poolOptions = None,
     fileParallelism = True, teardownTimeout = 10000, root = ''/repo'', config_name = ''unit'',
     testNamePattern = None, other = ''''\<rparr>"

definition example_host :: "int \<Rightarrow> host" where
  "example_host u = \<lparr>numCpus = u, totalmem = Some 8192,
     suppressWarningsPath = ''/dist/suppress-warnings.cjs'', worker_filename = ''/dist/worker.js'',
     proc_execArgv = [], proc_env = []\<rparr>"

definition overridden_config :: ResolvedConfig where
  "overridden_config = example_config\<lparr>maxWorkers := Some 6, minWorkers := Some 3,
     poolOptions := Some \<lparr>vmForks = Some \<lparr>maxForks = Some 5, singleFork = Some True,
       vm_execArgv = None\<rparr>\<rparr>\<rparr>"

definition example_project :: WorkspaceProject where
  "example_project = \<lparr>project_id = 0, project_name = ''unit'',
     serializableConfig = example_config\<lparr>testNamePattern := Some (Pattern (RegExp ''adds'' ''i''))\<rparr>,
     project_providedContext = ''{}'', project_config = example_config\<rparr>"

definition example_spec :: "string \<Rightarrow> string \<Rightarrow> file_spec" where
  "example_spec f e = \<lparr>spec_file = f, spec_environment = e, spec_project = example_project\<rparr>"

text \<open>Three files in two environments.\<close>

definition example_filesByEnv :: "(string \<times> file_spec list) list" where
  "example_filesByEnv =
     [(''node'', [example_spec ''a.test.ts'' ''node'', example_spec ''b.test.ts'' ''node'']),
      (''jsdom'', [example_spec ''c.test.ts'' ''jsdom''])]"

definition example_world :: world where
  "example_world = \<lparr>state = [], onCancel = [], emitters = [], pool_runs = [], id_counter = 0\<rparr>"

definition example_task :: task where
  "example_task = \<lparr>task_project = example_project,
     data = \<lparr>pool = ''forks'', worker = ''/dist/workers/vmForks.js'', config = example_config,
       files = [''a.test.ts''], invalidates = [], environment = ''node'', workerId = 1,
       projectName = ''unit'', providedContext = ''{}''\<rparr>,
     channel = 0\<rparr>"

definition settles :: "js_value option \<Rightarrow> bool \<Rightarrow> run_behaviour" where
  "settles r c = \<lparr>onMessage_calls = 1, outcome = r, isCancelling = c\<rparr>"

text \<open>A pool that treats the task with \<^verbatim>\<open>workerId\<close> \<open>k\<close> as the \<open>k\<close>-th entry of a list says.\<close>

definition by_workerId :: "run_behaviour list \<Rightarrow> ContextRPC \<Rightarrow> run_behaviour" where
  "by_workerId bs d =
     (case drop (workerId d - 1) bs of b # _ \<Rightarrow> b | [] \<Rightarrow> settles None False)"

text \<open>Three tasks: the first resolves, the second rejects with an ordinary error, the third
  is cancelled while a cancellation is in effect.\<close>

definition one_failure :: "ContextRPC \<Rightarrow> run_behaviour" where
  "one_failure = by_workerId
     [settles None False,
      settles (Some (Error ''boom'')) False,
      settles (Some (Error ''The task has been cancelled'')) True]"

text \<open>The world in which \<open>example_task\<close> has been started.\<close>

definition started_world :: world where
  "started_world = example_world\<lparr>emitters := [[(''response'', RpcHandler)]], id_counter := 1\<rparr>"

text \<open>Rejections: a cancelled task, and an error whose message matches both patterns.\<close>

definition cancelled :: js_value where
  "cancelled = Error ''The task has been cancelled''"

definition stuck_and_cancelled :: js_value where
  "stuck_and_cancelled = Error ''Failed to terminate worker: The task has been cancelled''"

text \<open>Three tasks of which two get stuck workers, and three of which two reject with thrown
  strings.\<close>

definition stuck_workers :: "ContextRPC \<Rightarrow> run_behaviour" where
  "stuck_workers = by_workerId
     [settles (Some (Error ''Failed to terminate worker'')) False,
      settles (Some (Error ''boom'')) False,
      settles (Some stuck_and_cancelled) True]"

definition thrown_values :: "ContextRPC \<Rightarrow> run_behaviour" where
  "thrown_values = by_workerId
     [settles (Some (NonError ''Failed to terminate worker'')) False,
      settles None False,
      settles (Some (NonError ''The task has been cancelled'')) True]"

section \<open>Properties\<close>

subsection \<open>Serialising patterns\<close>

text \<open>
  Claim C9. \<^verbatim>\<open>stringifyRegex\<close> turns a regular expression into the marker \<^verbatim>\<open>$$vitest:\<close>
  followed by the expression's textual form, so that dropping the nine characters of the
  marker gives the textual form back, and returns a plain string unchanged. \<^verbatim>\<open>getConfig\<close>
  stores this string as the \<^verbatim>\<open>testNamePattern\<close> of the configuration it hands out, for a
  regular expression and for a non-empty string.
\<close>

theorem stringifyRegex_marker:
  "stringifyRegex (Pattern r) = ''$$vitest:'' @ RegExp_toString r
   \<and> take 9 (stringifyRegex (Pattern r)) = ''$$vitest:''
   \<and> drop 9 (stringifyRegex (Pattern r)) = ''/'' @ source r @ ''/'' @ flags r
   \<and> stringifyRegex (Plain s) = s
   \<and> testNamePattern (fst (getConfig Map.empty
        (p\<lparr>serializableConfig := c\<lparr>testNamePattern := Some (Pattern r)\<rparr>\<rparr>)))
       = Some (Plain (''$$vitest:'' @ RegExp_toString r))
   \<and> testNamePattern (fst (getConfig Map.empty
        (p\<lparr>serializableConfig := c\<lparr>testNamePattern := Some (Plain (x # xs))\<rparr>\<rparr>)))
       = Some (Plain (x # xs))"
  by (simp add: marker_def RegExp_toString_def getConfig_def Let_def)

subsection \<open>Sizing the pool\<close>

text \<open>
  Claim C4. For a positive number \<open>u\<close> of processing units the default worker count is
  \<open>max (u div 2) 1\<close> in watch mode and \<open>max (u - 1) 1\<close> otherwise, and with no
  \<^verbatim>\<open>maxForks\<close>, \<^verbatim>\<open>maxWorkers\<close> or \<^verbatim>\<open>minWorkers\<close> override (and the pool not forced to a
  single worker) the pool is built with that count as both \<^verbatim>\<open>maxThreads\<close> and
  \<^verbatim>\<open>minThreads\<close>.
\<close>

theorem default_worker_count:
  assumes "0 < numCpus h"
    and "maxWorkers c = None" and "minWorkers c = None" and "maxForks (get_poolOptions c) = None"
    and "singleFork (get_poolOptions c) \<noteq> Some True" and "fileParallelism c"
  shows "threadsCount c (numCpus h)
           = (if watch c then max (numCpus h div 2) 1 else max (numCpus h - 1) 1)
     \<and> maxThreads (pool_options g s h c) = threadsCount c (numCpus h)
     \<and> minThreads (pool_options g s h c) = threadsCount c (numCpus h)"
  using assms by (simp add: pool_options_def threadsCount_def nullish_def Let_def)

text \<open>Eight units give 4 workers in watch mode and 7 otherwise; one unit gives 1 in both.\<close>

theorem default_worker_count_witness:
  "maxThreads (pool_options (\<lambda>_. Num 2048) (spec_stringToBytes decimal decimal) (example_host 8) (example_config\<lparr>watch := True\<rparr>)) = 4
   \<and> maxThreads (pool_options (\<lambda>_. Num 2048) (spec_stringToBytes decimal decimal) (example_host 8) example_config) = 7
   \<and> maxThreads (pool_options (\<lambda>_. Num 2048) (spec_stringToBytes decimal decimal) (example_host 1) (example_config\<lparr>watch := True\<rparr>)) = 1
   \<and> maxThreads (pool_options (\<lambda>_. Num 2048) (spec_stringToBytes decimal decimal) (example_host 1) example_config) = 1"
proof -
  note ev = example_host_def example_config_def get_poolOptions_def empty_vmForksOptions_def
    threadsCount_def
  have a: "maxThreads (pool_options (\<lambda>_. Num 2048) (spec_stringToBytes decimal decimal) (example_host 8) (example_config\<lparr>watch := True\<rparr>)) = 4"
    using default_worker_count [of "example_host 8" "example_config\<lparr>watch := True\<rparr>"
        "\<lambda>_. Num 2048" "spec_stringToBytes decimal decimal"]
    by (simp add: ev)
  have b: "maxThreads (pool_options (\<lambda>_. Num 2048) (spec_stringToBytes decimal decimal) (example_host 8) example_config) = 7"
    using default_worker_count [of "example_host 8" example_config
        "\<lambda>_. Num 2048" "spec_stringToBytes decimal decimal"]
    by (simp add: ev)
  have c: "maxThreads (pool_options (\<lambda>_. Num 2048) (spec_stringToBytes decimal decimal) (example_host 1) (example_config\<lparr>watch := True\<rparr>)) = 1"
    using default_worker_count [of "example_host 1" "example_config\<lparr>watch := True\<rparr>"
        "\<lambda>_. Num 2048" "spec_stringToBytes decimal decimal"]
    by (simp add: ev)
  have d: "maxThreads (pool_options (\<lambda>_. Num 2048) (spec_stringToBytes decimal decimal) (example_host 1) example_config) = 1"
    using default_worker_count [of "example_host 1" example_config
        "\<lambda>_. Num 2048" "spec_stringToBytes decimal decimal"]
    by (simp add: ev)
  show ?thesis using a b c d by simp
qed

text \<open>
  Claim C6. When \<^verbatim>\<open>singleFork\<close> is set or file parallelism is disabled, the pool is built
  with \<^verbatim>\<open>minThreads = maxThreads = 1\<close>, whatever the number of units, the mode and the
  overrides.
\<close>

theorem single_fork_one_worker:
  assumes "singleFork (get_poolOptions c) = Some True \<or> \<not> fileParallelism c"
  shows "maxThreads (pool_options g s h c) = 1 \<and> minThreads (pool_options g s h c) = 1"
  using assms by (auto simp add: pool_options_def Let_def)

theorem single_fork_one_worker_witness:
  "maxThreads (pool_options (\<lambda>_. Num 2048) (spec_stringToBytes decimal decimal) (example_host 8) overridden_config) = 1
   \<and> minThreads (pool_options (\<lambda>_. Num 2048) (spec_stringToBytes decimal decimal) (example_host 8) overridden_config) = 1
   \<and> maxThreads (pool_options (\<lambda>_. Num 2048) (spec_stringToBytes decimal decimal) (example_host 8)
        (overridden_config\<lparr>poolOptions := None, fileParallelism := False\<rparr>)) = 1
   \<and> minThreads (pool_options (\<lambda>_. Num 2048) (spec_stringToBytes decimal decimal) (example_host 8)
        (overridden_config\<lparr>poolOptions := None, fileParallelism := False\<rparr>)) = 1"
proof -
  have a: "singleFork (get_poolOptions overridden_config) = Some True"
    by (simp add: overridden_config_def example_config_def get_poolOptions_def)
  have b: "\<not> fileParallelism (overridden_config\<lparr>poolOptions := None, fileParallelism := False\<rparr>)"
    by simp
  show ?thesis
    using single_fork_one_worker [of overridden_config "\<lambda>_. Num 2048"
        "spec_stringToBytes decimal decimal" "example_host 8"] a
      single_fork_one_worker [of "overridden_config\<lparr>poolOptions := None, fileParallelism := False\<rparr>"
        "\<lambda>_. Num 2048" "spec_stringToBytes decimal decimal" "example_host 8"] b
    by blast
qed

subsection \<open>The memory ceiling\<close>

text \<open>
  Claim C5 as it is stated fails for a string without a trailing percent sign whose value
  is at most 1. With total memory unknown such a string is handed to the conversion without
  a baseline, and the conversion, as the specification describes it, yields no ceiling for
  a value of at most 1: \<^verbatim>\<open>"1"\<close> and \<^verbatim>\<open>"0"\<close> resolve to \<^verbatim>\<open>null\<close>, not to a byte count.
\<close>

theorem memory_limit_resolution_counterexample:
  "at_last ''1'' \<noteq> Some CHR ''%''
   \<and> getMemoryLimit (\<lambda>_. Str ''1'') (spec_stringToBytes decimal decimal) None example_config
       = None
   \<and> getMemoryLimit (\<lambda>_. Str ''0'') (spec_stringToBytes decimal decimal) None example_config
       = None"
  by (simp add: getMemoryLimit_def spec_stringToBytes_def numberToBytes_def at_last_def
      decimal_def digit_value_def)

text \<open>
  Claim C5, amended. With total memory \<open>M\<close> known, \<^verbatim>\<open>getMemoryLimit\<close> resolves the limit
  against the baseline \<open>M / 2\<close> in watch mode and \<open>M\<close> otherwise: a number above 1 resolves
  to itself, whatever \<open>M\<close> is; a ratio of at most 1 resolves to the ratio times the
  baseline; a string ending in a percent sign resolves to the percentage times the
  baseline. With \<open>M\<close> unknown, a number above 1 still resolves to itself; a string without
  a trailing percent sign is still handed to the conversion, without a baseline, and
  resolves to its scaled value when that is above 1 and to \<^verbatim>\<open>null\<close> when it is at most 1;
  a ratio of at most 1 and a percentage string resolve to \<^verbatim>\<open>null\<close>, whatever the conversion
  function is.
\<close>

theorem memory_limit_resolution:
  "getMemoryLimit (\<lambda>_. l) (spec_stringToBytes parse scale) (Some M) c
      = spec_stringToBytes parse scale l (Some (if watch c then M / 2 else M))
   \<and> (1 < n \<longrightarrow> getMemoryLimit (\<lambda>_. Num n) (spec_stringToBytes parse scale) mem c = Some n)
   \<and> (n \<le> 1 \<longrightarrow> getMemoryLimit (\<lambda>_. Num n) (spec_stringToBytes parse scale) (Some M) c
         = Some (n * (if watch c then M / 2 else M)))
   \<and> (at_last s = Some CHR ''%'' \<longrightarrow>
         getMemoryLimit (\<lambda>_. Str s) (spec_stringToBytes parse scale) (Some M) c
         = Some (parse (butlast s) / 100 * (if watch c then M / 2 else M)))
   \<and> (at_last s \<noteq> Some CHR ''%'' \<longrightarrow>
         getMemoryLimit (\<lambda>_. Str s) stb None c = stb (Str s) None)
   \<and> (at_last s \<noteq> Some CHR ''%'' \<longrightarrow>
         getMemoryLimit (\<lambda>_. Str s) (spec_stringToBytes parse scale) None c
         = (if 1 < scale s then Some (scale s) else None))
   \<and> (n \<le> 1 \<longrightarrow> getMemoryLimit (\<lambda>_. Num n) stb None c = None)
   \<and> (at_last s = Some CHR ''%'' \<longrightarrow> getMemoryLimit (\<lambda>_. Str s) stb None c = None)"
  by (cases mem) (simp_all add: getMemoryLimit_def spec_stringToBytes_def numberToBytes_def Let_def)

text \<open>With \<open>M = 8192\<close>: \<^verbatim>\<open>"50%"\<close> gives \<open>M / 2\<close>; the ratio \<open>1/2\<close> in watch mode gives
  \<open>M / 4\<close>; 2048 gives 2048 with and without \<open>M\<close>; without \<open>M\<close>, \<^verbatim>\<open>"2048"\<close> gives 2048
  and \<^verbatim>\<open>"1"\<close>, \<^verbatim>\<open>"10%"\<close> and the ratio \<open>1/2\<close> give \<^verbatim>\<open>null\<close>.\<close>

theorem memory_limit_resolution_witness:
  "getMemoryLimit (\<lambda>_. Str ''50%'') (spec_stringToBytes decimal decimal) (Some 8192)
      example_config = Some 4096
   \<and> getMemoryLimit (\<lambda>_. Num (1/2)) (spec_stringToBytes decimal decimal) (Some 8192)
      (example_config\<lparr>watch := True\<rparr>) = Some 2048
   \<and> getMemoryLimit (\<lambda>_. Num 2048) (spec_stringToBytes decimal decimal) (Some 8192)
      example_config = Some 2048
   \<and> getMemoryLimit (\<lambda>_. Num 2048) (spec_stringToBytes decimal decimal) None
      example_config = Some 2048
   \<and> getMemoryLimit (\<lambda>_. Str ''2048'') (spec_stringToBytes decimal decimal) None
      example_config = Some 2048
   \<and> getMemoryLimit (\<lambda>_. Str ''1'') (spec_stringToBytes decimal decimal) None
      example_config = None
   \<and> getMemoryLimit (\<lambda>_. Str ''10%'') (spec_stringToBytes decimal decimal) None
      example_config = None
   \<and> getMemoryLimit (\<lambda>_. Num (1/2)) (spec_stringToBytes decimal decimal) None
      example_config = None"
proof -
  note ev = example_config_def at_last_def decimal_def digit_value_def spec_stringToBytes_def
    numberToBytes_def
  have a: "getMemoryLimit (\<lambda>_. Str ''50%'') (spec_stringToBytes decimal decimal) (Some 8192)
      example_config = Some 4096"
    using memory_limit_resolution [where s = "''50%''" and parse = decimal and scale = decimal
        and M = 8192 and c = example_config]
    by (simp add: ev)
  have b: "getMemoryLimit (\<lambda>_. Num (1/2)) (spec_stringToBytes decimal decimal) (Some 8192)
      (example_config\<lparr>watch := True\<rparr>) = Some 2048"
    using memory_limit_resolution [where n = "1/2" and parse = decimal and scale = decimal
        and M = 8192 and c = "example_config\<lparr>watch := True\<rparr>"]
    by (simp add: ev)
  have c: "getMemoryLimit (\<lambda>_. Num 2048) (spec_stringToBytes decimal decimal) mem
      example_config = Some 2048" for mem
    using memory_limit_resolution [where n = 2048 and parse = decimal and scale = decimal
        and mem = mem and c = example_config]
    by simp
  have d: "getMemoryLimit (\<lambda>_. Str ''2048'') (spec_stringToBytes decimal decimal) None
      example_config = Some 2048"
    using memory_limit_resolution [where s = "''2048''" and parse = decimal and scale = decimal
        and stb = "spec_stringToBytes decimal decimal" and c = example_config]
    by (simp add: ev)
  have d': "getMemoryLimit (\<lambda>_. Str ''1'') (spec_stringToBytes decimal decimal) None
      example_config = None"
    using memory_limit_resolution [where s = "''1''" and parse = decimal and scale = decimal
        and stb = "spec_stringToBytes decimal decimal" and c = example_config]
    by (simp add: ev)
  have e: "getMemoryLimit (\<lambda>_. Str ''10%'') (spec_stringToBytes decimal decimal) None
      example_config = None"
    using memory_limit_resolution [where s = "''10%''"
        and stb = "spec_stringToBytes decimal decimal" and c = example_config]
    by (simp add: ev)
  have f: "getMemoryLimit (\<lambda>_. Num (1/2)) (spec_stringToBytes decimal decimal) None
      example_config = None"
    using memory_limit_resolution [where n = "1/2"
        and stb = "spec_stringToBytes decimal decimal" and c = example_config]
    by simp
  show ?thesis using a b c d d' e f by simp
qed

subsection \<open>The parts of a dispatch\<close>

text \<open>The pool's registrations touch only the task's own emitter.\<close>

lemma pool_run_frame:
  "\<exists>X. pool_run t b w = w\<lparr>emitters := (emitters w)[channel t := X]\<rparr>"
proof -
  have "\<exists>X. foldl (\<lambda>w' k. emitter_on a ''message'' (PoolCallback k) w') w ks
          = w\<lparr>emitters := (emitters w)[a := X]\<rparr>" for a ks
  proof (induction ks rule: rev_induct)
    case Nil
    have "w = w\<lparr>emitters := (emitters w)[a := emitters w ! a]\<rparr>" by simp
    then show ?case by (metis foldl_Nil)
  next
    case (snoc k ks)
    then obtain X where "foldl (\<lambda>w' k. emitter_on a ''message'' (PoolCallback k) w') w ks
          = w\<lparr>emitters := (emitters w)[a := X]\<rparr>" by blast
    then show ?case by (auto simp add: emitter_on_def)
  qed
  then show ?thesis unfolding pool_run_def by blast
qed

text \<open>The \<^verbatim>\<open>catch\<close> and \<^verbatim>\<open>finally\<close> blocks of \<^verbatim>\<open>runFiles\<close> implement the taxonomy.\<close>

lemma runFiles_settle_eq:
  "runFiles_settle ctx_config t b w =
     (settled_as (classify b),
      w\<lparr>state := state w @ settle_calls ctx_config t (classify b),
        emitters := (emitters w)[channel t := []]\<rparr>)"
proof -
  obtain X where X: "pool_run t b w = w\<lparr>emitters := (emitters w)[channel t := X]\<rparr>"
    using pool_run_frame by blast
  show ?thesis
    by (simp add: runFiles_settle_def X classify_def removeAllListeners_def Let_def
        split: option.split)
qed

lemma runFiles_start_eq:
  "runFiles_start wk p cfg fs en iv w =
     (\<lparr>task_project = p,
       data = \<lparr>pool = ''forks'', worker = wk, config = cfg, files = fs, invalidates = iv,
         environment = en, workerId = id_counter w + 1, projectName = project_name p,
         providedContext = project_providedContext p\<rparr>,
       channel = length (emitters w)\<rparr>,
      w\<lparr>state := state w @ [ClearFiles p fs],
        onCancel := onCancel w @ [RpcOnCancel (length (emitters w))],
        emitters := emitters w @ [[(''response'', RpcHandler)]],
        pool_runs := pool_runs w @ [\<lparr>pool = ''forks'', worker = wk, config = cfg, files = fs,
          invalidates = iv, environment = en, workerId = id_counter w + 1,
          projectName = project_name p, providedContext = project_providedContext p\<rparr>],
        id_counter := id_counter w + 1\<rparr>)"
  by (simp add: runFiles_start_def createChildProcessChannel_def emitter_on_def Let_def)

lemma start_all_length:
  "length (fst (start_all wk iv us cs w)) = length us"
  by (induction us arbitrary: cs w) (simp_all add: Let_def case_prod_beta)

lemma start_all_channel:
  "i < length us \<Longrightarrow> channel (fst (start_all wk iv us cs w) ! i) = length (emitters w) + i"
proof (induction us arbitrary: cs w i)
  case Nil
  then show ?case by simp
next
  case (Cons u us)
  show ?case
  proof (cases i)
    case 0
    then show ?thesis by (simp add: runFiles_start_eq Let_def case_prod_beta)
  next
    case (Suc j)
    with Cons.prems have "j < length us" by simp
    from Cons.IH [OF this] show ?thesis
      using Suc by (simp add: runFiles_start_eq Let_def case_prod_beta)
  qed
qed

lemma start_all_emitters:
  "emitters (snd (snd (start_all wk iv us cs w)))
     = emitters w @ replicate (length us) [(''response'', RpcHandler)]"
proof (induction us arbitrary: cs w)
  case Nil
  then show ?case by simp
next
  case (Cons u us)
  show ?case
    using Cons.IH
    by (simp add: runFiles_start_eq Let_def replicate_app_Cons_same case_prod_beta)
qed

lemma start_all_id_counter:
  "id_counter (snd (snd (start_all wk iv us cs w))) = id_counter w + length us"
proof (induction us arbitrary: cs w)
  case Nil
  then show ?case by simp
next
  case (Cons u us)
  show ?case
    using Cons.IH by (simp add: runFiles_start_eq Let_def case_prod_beta)
qed

lemma start_all_pool_runs:
  "pool_runs (snd (snd (start_all wk iv us cs w)))
     = pool_runs w @ map data (fst (start_all wk iv us cs w))"
proof (induction us arbitrary: cs w)
  case Nil
  then show ?case by simp
next
  case (Cons u us)
  show ?case
    using Cons.IH by (simp add: runFiles_start_eq Let_def case_prod_beta)
qed

lemma start_all_workerId:
  "map (workerId \<circ> data) (fst (start_all wk iv us cs w))
     = [id_counter w + 1 ..< id_counter w + 1 + length us]"
proof (induction us arbitrary: cs w)
  case Nil
  then show ?case by simp
next
  case (Cons u us)
  show ?case
    using Cons.IH by (simp add: runFiles_start_eq Let_def upt_rec case_prod_beta)
qed

text \<open>One settlement, and any sequence of them: \<open>S\<close> is the set of the tasks that have
  settled, \<open>E0\<close> the emitters that existed before the dispatch.\<close>

lemma settle_one_step:
  assumes ch: "\<forall>j<length ts. channel (ts ! j) = length E0 + j"
    and rs: "rs = map (\<lambda>j. if j \<in> S then Some (settled_as (classify (beh (data (ts ! j))))) else None)
                [0..<length ts]"
    and em: "emitters w = E0 @ map (\<lambda>j. if j \<in> S then [] else L) [0..<length ts]"
  shows "fst (settle_one cfg beh ts (rs, w) i)
           = map (\<lambda>j. if j \<in> insert i S then Some (settled_as (classify (beh (data (ts ! j))))) else None)
               [0..<length ts]
       \<and> emitters (snd (settle_one cfg beh ts (rs, w) i))
           = E0 @ map (\<lambda>j. if j \<in> insert i S then [] else L) [0..<length ts]
       \<and> id_counter (snd (settle_one cfg beh ts (rs, w) i)) = id_counter w
       \<and> pool_runs (snd (settle_one cfg beh ts (rs, w) i)) = pool_runs w
       \<and> onCancel (snd (settle_one cfg beh ts (rs, w) i)) = onCancel w"
proof (cases "i < length ts \<and> rs ! i = None")
  case True
  then have i: "i < length ts" and "rs ! i = None" by simp_all
  then have iS: "i \<notin> S" using rs by (auto split: if_splits)
  have r: "rs[i := Some (settled_as (classify (beh (data (ts ! i)))))]
      = map (\<lambda>j. if j \<in> insert i S then Some (settled_as (classify (beh (data (ts ! j))))) else None)
               [0..<length ts]"
    using i by (intro nth_equalityI) (auto simp add: rs nth_list_update)
  have e: "(emitters w)[channel (ts ! i) := []]
      = E0 @ map (\<lambda>j. if j \<in> insert i S then [] else L) [0..<length ts]"
    using i ch by (intro nth_equalityI) (auto simp add: em nth_list_update nth_append)
  have "settle_one cfg beh ts (rs, w) i
      = (rs[i := Some (settled_as (classify (beh (data (ts ! i)))))],
         w\<lparr>state := state w @ settle_calls cfg (ts ! i) (classify (beh (data (ts ! i)))),
           emitters := (emitters w)[channel (ts ! i) := []]\<rparr>)"
    using True by (simp add: settle_one_def runFiles_settle_eq)
  then show ?thesis
    by (simp add: r e)
next
  case False
  then have out: "i \<ge> length ts \<or> i \<in> S" using rs by (auto split: if_splits)
  have m1: "map (\<lambda>j. if j \<in> insert i S then Some (settled_as (classify (beh (data (ts ! j))))) else None)
              [0..<length ts]
     = map (\<lambda>j. if j \<in> S then Some (settled_as (classify (beh (data (ts ! j))))) else None)
              [0..<length ts]"
    using out by (intro map_cong) auto
  have m2: "map (\<lambda>j. if j \<in> insert i S then [] else L) [0..<length ts]
     = map (\<lambda>j. if j \<in> S then [] else L) [0..<length ts]"
    using out by (intro map_cong) auto
  have "settle_one cfg beh ts (rs, w) i = (rs, w)"
    unfolding settle_one_def using False by (simp only: Let_def case_prod_conv if_False)
  then show ?thesis
    using rs em by (simp only: m1 m2 fst_conv snd_conv simp_thms)
qed

lemma settle_fold:
  assumes ch: "\<forall>j<length ts. channel (ts ! j) = length E0 + j"
  shows "rs = map (\<lambda>j. if j \<in> S then Some (settled_as (classify (beh (data (ts ! j))))) else None)
                [0..<length ts] \<Longrightarrow>
         emitters w = E0 @ map (\<lambda>j. if j \<in> S then [] else L) [0..<length ts] \<Longrightarrow>
         fst (foldl (settle_one cfg beh ts) (rs, w) order)
           = map (\<lambda>j. if j \<in> S \<union> set order
                       then Some (settled_as (classify (beh (data (ts ! j))))) else None)
               [0..<length ts]
       \<and> emitters (snd (foldl (settle_one cfg beh ts) (rs, w) order))
           = E0 @ map (\<lambda>j. if j \<in> S \<union> set order then [] else L) [0..<length ts]
       \<and> id_counter (snd (foldl (settle_one cfg beh ts) (rs, w) order)) = id_counter w
       \<and> pool_runs (snd (foldl (settle_one cfg beh ts) (rs, w) order)) = pool_runs w
       \<and> onCancel (snd (foldl (settle_one cfg beh ts) (rs, w) order)) = onCancel w"
proof (induction order arbitrary: rs w S)
  case Nil
  then show ?case by simp
next
  case (Cons i order)
  obtain rs1 w1 where s1: "settle_one cfg beh ts (rs, w) i = (rs1, w1)"
    by (cases "settle_one cfg beh ts (rs, w) i")
  from settle_one_step [OF ch Cons.prems(1) Cons.prems(2), where cfg = cfg and i = i] s1
  have a: "rs1 = map (\<lambda>j. if j \<in> insert i S
                           then Some (settled_as (classify (beh (data (ts ! j))))) else None)
               [0..<length ts]"
    and b: "emitters w1 = E0 @ map (\<lambda>j. if j \<in> insert i S then [] else L) [0..<length ts]"
    and c: "id_counter w1 = id_counter w" "pool_runs w1 = pool_runs w" "onCancel w1 = onCancel w"
    by simp_all
  have u: "insert i S \<union> set order = S \<union> set (i # order)" by auto
  from Cons.IH [OF a b] show ?case
    by (simp add: s1 c u del: Un_insert_left Un_insert_right)
qed

lemma settle_all_eq:
  assumes ch: "\<forall>j<length ts. channel (ts ! j) = length (emitters w) + j"
    and em: "emitters w1 = emitters w @ replicate (length ts) L"
  shows "fst (settle_all cfg beh ts order w1)
           = map (\<lambda>j. if j \<in> set order
                       then Some (settled_as (classify (beh (data (ts ! j))))) else None)
               [0..<length ts]
       \<and> emitters (snd (settle_all cfg beh ts order w1))
           = emitters w @ map (\<lambda>j. if j \<in> set order then [] else L) [0..<length ts]
       \<and> id_counter (snd (settle_all cfg beh ts order w1)) = id_counter w1
       \<and> pool_runs (snd (settle_all cfg beh ts order w1)) = pool_runs w1
       \<and> onCancel (snd (settle_all cfg beh ts order w1)) = onCancel w1"
proof -
  have a: "replicate (length ts) None
      = map (\<lambda>j. if j \<in> {} then Some (settled_as (classify (beh (data (ts ! j))))) else None)
          [0..<length ts]"
    by (simp add: map_replicate_const)
  have b: "emitters w1 = emitters w @ map (\<lambda>j. if j \<in> {} then [] else L) [0..<length ts]"
    by (simp add: em map_replicate_const)
  from settle_fold [OF ch a b, of cfg order] show ?thesis
    by (simp add: settle_all_def)
qed

lemma rejection_settled_as: "rejection (Some (settled_as c)) = genuine_errors c"
  by (cases c) simp_all

lemma dispatched_length: "length (dispatched wk fbe iv w) = length (concat (map snd fbe))"
  by (simp add: dispatched_def start_all_length)

text \<open>What a call of the dispatch function returns.\<close>

lemma runTests_result:
  "fst (runTests cfg wk beh order fbe iv w) =
     (if {..<length (dispatched wk fbe iv w)} \<subseteq> set order
      then Some (if concat (map (genuine_errors \<circ> classify \<circ> beh \<circ> data) (dispatched wk fbe iv w)) = []
                 then Inr ()
                 else Inl (AggregateError
                        (concat (map (genuine_errors \<circ> classify \<circ> beh \<circ> data)
                           (dispatched wk fbe iv w)))
                        ''Errors occurred while running tests. For more information, see serialized error.''))
      else None)"
proof -
  define w0 where "w0 = w\<lparr>onCancel := onCancel w @ [CancelPendingTasks]\<rparr>"
  define us where "us = concat (map snd fbe)"
  define ts where "ts = fst (start_all wk iv us Map.empty w0)"
  define w1 where "w1 = snd (snd (start_all wk iv us Map.empty w0))"
  define results where "results = fst (settle_all cfg beh ts order w1)"
  have ts: "dispatched wk fbe iv w = ts"
    by (simp add: dispatched_def ts_def us_def w0_def)
  have len: "length ts = length us" by (simp add: ts_def start_all_length)
  have ch: "\<forall>j<length ts. channel (ts ! j) = length (emitters w0) + j"
    by (simp add: ts_def start_all_length start_all_channel)
  have em: "emitters w1 = emitters w0 @ replicate (length ts) [(''response'', RpcHandler)]"
    by (simp add: w1_def len start_all_emitters)
  from settle_all_eq [OF ch em, of cfg beh order]
  have res: "results = map (\<lambda>j. if j \<in> set order
                then Some (settled_as (classify (beh (data (ts ! j))))) else None) [0..<length ts]"
    by (simp add: results_def)
  have all: "list_all (\<lambda>r. r \<noteq> None) results = ({..<length ts} \<subseteq> set order)"
    by (auto simp add: res list_all_iff)
  have errs: "concat (map rejection results)
      = concat (map (genuine_errors \<circ> classify \<circ> beh \<circ> data) ts)"
    if "{..<length ts} \<subseteq> set order"
  proof -
    have "results = map (\<lambda>j. Some (settled_as (classify (beh (data (ts ! j)))))) [0..<length ts]"
      unfolding res using that by (intro map_cong) auto
    also have "\<dots> = map (\<lambda>t. Some (settled_as (classify (beh (data t))))) ts"
      by (intro nth_equalityI) simp_all
    finally show ?thesis
      by (simp add: comp_def rejection_settled_as)
  qed
  have "fst (runTests cfg wk beh order fbe iv w) =
     (if list_all (\<lambda>r. r \<noteq> None) results
      then Some (if length (concat (map rejection results)) > 0
                 then Inl (AggregateError (concat (map rejection results))
                        ''Errors occurred while running tests. For more information, see serialized error.'')
                 else Inr ())
      else None)"
    by (simp add: runTests_def Let_def case_prod_beta results_def ts_def w1_def us_def w0_def)
  then show ?thesis
    unfolding ts all using errs by auto
qed

text \<open>The world it leaves: one emitter more for each task, empty once the task has
  settled; the counter advanced by the number of tasks; the tasks' data handed to the
  pool.\<close>

lemma runTests_world:
  "emitters (snd (runTests cfg wk beh order fbe iv w))
     = emitters w @ map (\<lambda>j. if j \<in> set order then [] else [(''response'', RpcHandler)])
         [0..<length (dispatched wk fbe iv w)]
   \<and> id_counter (snd (runTests cfg wk beh order fbe iv w))
       = id_counter w + length (dispatched wk fbe iv w)
   \<and> pool_runs (snd (runTests cfg wk beh order fbe iv w))
       = pool_runs w @ map data (dispatched wk fbe iv w)"
proof -
  define w0 where "w0 = w\<lparr>onCancel := onCancel w @ [CancelPendingTasks]\<rparr>"
  define us where "us = concat (map snd fbe)"
  define ts where "ts = fst (start_all wk iv us Map.empty w0)"
  define w1 where "w1 = snd (snd (start_all wk iv us Map.empty w0))"
  have ts: "dispatched wk fbe iv w = ts"
    by (simp add: dispatched_def ts_def us_def w0_def)
  have len: "length ts = length us" by (simp add: ts_def start_all_length)
  have ch: "\<forall>j<length ts. channel (ts ! j) = length (emitters w0) + j"
    by (simp add: ts_def start_all_length start_all_channel)
  have em: "emitters w1 = emitters w0 @ replicate (length ts) [(''response'', RpcHandler)]"
    by (simp add: w1_def len start_all_emitters)
  have w2: "snd (runTests cfg wk beh order fbe iv w) = snd (settle_all cfg beh ts order w1)"
    by (simp add: runTests_def Let_def case_prod_beta ts_def w1_def us_def w0_def)
  have id1: "id_counter w1 = id_counter w + length ts"
    by (simp add: w1_def start_all_id_counter len w0_def)
  have pr1: "pool_runs w1 = pool_runs w @ map data ts"
    by (simp add: w1_def ts_def start_all_pool_runs w0_def)
  from settle_all_eq [OF ch em, of cfg beh order] show ?thesis
    unfolding ts w2 by (simp add: id1 pr1 w0_def)
qed

lemma errors_of_runTests:
  "{..<length (dispatched wk fbe iv w)} \<subseteq> set order \<Longrightarrow>
   errors_of (fst (runTests cfg wk beh order fbe iv w))
     = concat (map (genuine_errors \<circ> classify \<circ> beh \<circ> data) (dispatched wk fbe iv w))"
  by (simp add: runTests_result)

lemma errors_of_genuine:
  "x \<in> set (errors_of (fst (runTests cfg wk beh order fbe iv w))) \<Longrightarrow>
   \<exists>t \<in> set (dispatched wk fbe iv w). classify (beh (data t)) = GenuineTaskError x"
proof (cases "{..<length (dispatched wk fbe iv w)} \<subseteq> set order")
  case True
  assume "x \<in> set (errors_of (fst (runTests cfg wk beh order fbe iv w)))"
  then obtain t where t: "t \<in> set (dispatched wk fbe iv w)"
      and x: "x \<in> set (genuine_errors (classify (beh (data t))))"
    using errors_of_runTests [OF True, of cfg beh] by auto
  from x have "classify (beh (data t)) = GenuineTaskError x"
    by (cases "classify (beh (data t))") simp_all
  with t show ?thesis by blast
next
  case False
  assume "x \<in> set (errors_of (fst (runTests cfg wk beh order fbe iv w)))"
  with False show ?thesis by (simp add: runTests_result)
qed

subsection \<open>Aggregating the outcomes\<close>

text \<open>
  Claim C1. A call of the dispatch function returns only when every task it submitted has
  settled: its result is \<open>None\<close> (still waiting) unless every task index occurs in the
  settlement order, whatever has been rejected so far. When it returns, it throws exactly
  if some task is classified as a genuine error, and then it throws one
  \<^verbatim>\<open>AggregateError\<close> that holds the genuine errors, in the order of the tasks, and the
  fixed message; otherwise it resolves. One task is submitted for each file, and a task's
  promise is rejected exactly when its outcome is classified as a genuine error.
\<close>

theorem dispatch_awaits_all_and_aggregates:
  "fst (runTests cfg wk beh order fbe iv w) =
     (if {..<length (dispatched wk fbe iv w)} \<subseteq> set order
      then Some (if concat (map (genuine_errors \<circ> classify \<circ> beh \<circ> data) (dispatched wk fbe iv w)) = []
                 then Inr ()
                 else Inl (AggregateError
                        (concat (map (genuine_errors \<circ> classify \<circ> beh \<circ> data)
                           (dispatched wk fbe iv w)))
                        ''Errors occurred while running tests. For more information, see serialized error.''))
      else None)
   \<and> length (dispatched wk fbe iv w) = length (concat (map snd fbe))
   \<and> fst (runFiles_settle cfg t b w') = settled_as (classify b)"
  by (simp add: runTests_result dispatched_length runFiles_settle_eq)

text \<open>Three files of which one rejects genuinely and one is cancelled: the aggregate holds
  the one genuine error; while only the rejecting task has settled the call has not
  returned; with no rejection it resolves.\<close>

theorem dispatch_awaits_all_and_aggregates_witness:
  "fst (runTests example_config ''/dist/workers/vmForks.js'' one_failure [2, 0, 1]
          example_filesByEnv [] example_world)
     = Some (Inl (AggregateError [Error ''boom'']
         ''Errors occurred while running tests. For more information, see serialized error.''))
   \<and> fst (runTests example_config ''/dist/workers/vmForks.js'' one_failure [1]
          example_filesByEnv [] example_world) = None
   \<and> fst (runTests example_config ''/dist/workers/vmForks.js'' (by_workerId []) [0, 1, 2]
          example_filesByEnv [] example_world) = Some (Inr ())"
proof -
  have n: "length (dispatched ''/dist/workers/vmForks.js'' example_filesByEnv [] example_world) = 3"
    by code_simp
  have e: "concat (map (genuine_errors \<circ> classify \<circ> one_failure \<circ> data)
      (dispatched ''/dist/workers/vmForks.js'' example_filesByEnv [] example_world)) = [Error ''boom'']"
    by code_simp
  have e': "concat (map (genuine_errors \<circ> classify \<circ> by_workerId [] \<circ> data)
      (dispatched ''/dist/workers/vmForks.js'' example_filesByEnv [] example_world)) = []"
    by code_simp
  have s: "{..<3::nat} \<subseteq> {2, 0, 1}" "{..<3::nat} \<subseteq> {0, 1, 2}" "\<not> {..<3::nat} \<subseteq> {1}"
    by code_simp+
  note T = dispatch_awaits_all_and_aggregates [where cfg = example_config
      and wk = "''/dist/workers/vmForks.js''" and fbe = example_filesByEnv and iv = "[]"
      and w = example_world, THEN conjunct1]
  have a: "fst (runTests example_config ''/dist/workers/vmForks.js'' one_failure [2, 0, 1]
          example_filesByEnv [] example_world)
     = Some (Inl (AggregateError [Error ''boom'']
         ''Errors occurred while running tests. For more information, see serialized error.''))"
    using T [of one_failure "[2, 0, 1]"] by (simp only: n e s if_True if_False list.simps)
  have b: "fst (runTests example_config ''/dist/workers/vmForks.js'' one_failure [1]
          example_filesByEnv [] example_world) = None"
    using T [of one_failure "[1]"] by (simp only: n e s if_True if_False list.simps)
  have c: "fst (runTests example_config ''/dist/workers/vmForks.js'' (by_workerId []) [0, 1, 2]
          example_filesByEnv [] example_world) = Some (Inr ())"
    using T [of "by_workerId []" "[0, 1, 2]"] by (simp only: n e' s if_True if_False list.simps simp_thms)
  show ?thesis using a b c by simp
qed

subsection \<open>Classifying a rejection\<close>

text \<open>
  Claim C2 as it is stated fails for an error whose message matches both patterns: the test
  for \<^verbatim>\<open>Failed to terminate worker\<close> comes first, so with the cancellation flag unset the
  rejection is swallowed, not rethrown, and with the flag set the files are not marked
  cancelled: a process timeout cause is recorded instead.
\<close>

theorem cancellation_classification_counterexample:
  "error_matches ''The task has been cancelled'' stuck_and_cancelled
   \<and> runFiles_settle example_config example_task (settles (Some stuck_and_cancelled) False)
        started_world
       = (fulfilled,
          started_world\<lparr>state := [AddProcessTimeoutCause
                ''Failed to terminate worker while running a.test.ts.''],
            emitters := [[]]\<rparr>)
   \<and> runFiles_settle example_config example_task (settles (Some stuck_and_cancelled) True)
        started_world
       = (fulfilled,
          started_world\<lparr>state := [AddProcessTimeoutCause
                ''Failed to terminate worker while running a.test.ts.''],
            emitters := [[]]\<rparr>)"
  by code_simp

text \<open>
  Claim C2, amended. For a rejection that is an \<^verbatim>\<open>Error\<close> whose message matches
  \<^verbatim>\<open>The task has been cancelled\<close> and does not match \<^verbatim>\<open>Failed to terminate worker\<close>: when
  \<^verbatim>\<open>ctx.isCancelling\<close> is set as the task settles, \<^verbatim>\<open>runFiles\<close> calls
  \<^verbatim>\<open>ctx.state.cancelFiles\<close> with the task's files and resolves, and the task contributes
  nothing to the aggregate; when the flag is not set, \<^verbatim>\<open>runFiles\<close> rethrows the same
  error, without a call on the state, and the aggregate holds it at the task's place.
\<close>

theorem cancellation_classification:
  assumes "outcome b = Some e"
    and "error_matches ''The task has been cancelled'' e"
    and "\<not> error_matches ''Failed to terminate worker'' e"
  shows "(isCancelling b \<longrightarrow>
            runFiles_settle cfg t b w
              = (fulfilled,
                 w\<lparr>state := state w @ [CancelFiles (files (data t)) (root cfg)
                                          (config_name (project_config (task_project t)))],
                   emitters := (emitters w)[channel t := []]\<rparr>))
       \<and> (\<not> isCancelling b \<longrightarrow>
            runFiles_settle cfg t b w
              = (rejected e, w\<lparr>emitters := (emitters w)[channel t := []]\<rparr>))
       \<and> (dispatched wk fbe iv w0 = ts1 @ t # ts2 \<longrightarrow> beh (data t) = b \<longrightarrow>
            {..<length (dispatched wk fbe iv w0)} \<subseteq> set order \<longrightarrow>
            errors_of (fst (runTests cfg wk beh order fbe iv w0))
              = concat (map (genuine_errors \<circ> classify \<circ> beh \<circ> data) ts1)
                @ (if isCancelling b then [] else [e])
                @ concat (map (genuine_errors \<circ> classify \<circ> beh \<circ> data) ts2))"
proof -
  have c: "classify b = (if isCancelling b then IntentionalCancellation else GenuineTaskError e)"
    using assms by (simp add: classify_def)
  show ?thesis
    by (auto simp add: runFiles_settle_eq c errors_of_runTests)
qed

text \<open>A cancelled task with the flag set and unset, and the dispatch of three files whose
  third task is cancelled while a cancellation is in effect.\<close>

theorem cancellation_classification_witness:
  "runFiles_settle example_config example_task (settles (Some cancelled) True) started_world
     = (fulfilled,
        started_world\<lparr>state := [CancelFiles [''a.test.ts''] ''/repo'' ''unit''],
          emitters := [[]]\<rparr>)
   \<and> runFiles_settle example_config example_task (settles (Some cancelled) False) started_world
     = (rejected cancelled, started_world\<lparr>emitters := [[]]\<rparr>)
   \<and> errors_of (fst (runTests example_config ''/dist/workers/vmForks.js'' one_failure [2, 0, 1]
        example_filesByEnv [] example_world)) = [Error ''boom'']"
proof -
  define D where "D = dispatched ''/dist/workers/vmForks.js'' example_filesByEnv [] example_world"
  have h: "outcome (settles (Some cancelled) c) = Some cancelled"
    "error_matches ''The task has been cancelled'' cancelled"
    "\<not> error_matches ''Failed to terminate worker'' cancelled" for c
    by (simp_all add: settles_def cancelled_def)
  note T = cancellation_classification [OF h, where cfg = example_config]
  have a: "runFiles_settle example_config example_task (settles (Some cancelled) True) started_world
     = (fulfilled,
        started_world\<lparr>state := [CancelFiles [''a.test.ts''] ''/repo'' ''unit''],
          emitters := [[]]\<rparr>)"
    using T [of True example_task started_world, THEN conjunct1]
    by (simp add: settles_def example_task_def started_world_def example_world_def
        example_project_def example_config_def)
  have b: "runFiles_settle example_config example_task (settles (Some cancelled) False) started_world
     = (rejected cancelled, started_world\<lparr>emitters := [[]]\<rparr>)"
    using T [of False example_task started_world, THEN conjunct2, THEN conjunct1]
    by (simp add: settles_def started_world_def example_task_def)
  have len: "length D = 3"
    by (simp add: D_def dispatched_length example_filesByEnv_def)
  have dec: "D = take 2 D @ D ! 2 # drop 3 D"
    using len id_take_nth_drop [of 2 D] by simp
  have third: "one_failure (data (D ! 2)) = settles (Some cancelled) True"
    unfolding D_def cancelled_def by code_simp
  have all: "{..<length D} \<subseteq> set [2, 0, 1]"
    unfolding len by code_simp
  have e1: "concat (map (genuine_errors \<circ> classify \<circ> one_failure \<circ> data) (take 2 D)) = [Error ''boom'']"
    unfolding D_def by code_simp
  have e2: "concat (map (genuine_errors \<circ> classify \<circ> one_failure \<circ> data) (drop 3 D)) = []"
    unfolding D_def by code_simp
  have c: "errors_of (fst (runTests example_config ''/dist/workers/vmForks.js'' one_failure [2, 0, 1]
        example_filesByEnv [] example_world)) = [Error ''boom'']"
    using T [of True "D ! 2" _ "''/dist/workers/vmForks.js''" example_filesByEnv "[]" example_world
        "take 2 D" "drop 3 D" one_failure "[2, 0, 1]", THEN conjunct2, THEN conjunct2]
      dec third all
    by (simp add: D_def [symmetric] e1 e2 settles_def)
  show ?thesis using a b c by simp
qed

text \<open>
  Claim C3. For a rejection that is an \<^verbatim>\<open>Error\<close> whose message matches
  \<^verbatim>\<open>Failed to terminate worker\<close>, \<^verbatim>\<open>runFiles\<close> calls
  \<^verbatim>\<open>ctx.state.addProcessTimeoutCause\<close> with a text that names the task's files and
  resolves, whether or not a cancellation is in effect and whether or not the message also
  matches the cancellation pattern. Such an error is never among the errors of the
  aggregate, and the task contributes nothing to it.
\<close>

theorem termination_timeout_swallowed:
  assumes "outcome b = Some e"
    and "error_matches ''Failed to terminate worker'' e"
  shows "runFiles_settle cfg t b w
           = (fulfilled,
              w\<lparr>state := state w @ [AddProcessTimeoutCause
                   (''Failed to terminate worker while running '' @ join '', '' (files (data t)) @ ''.'')],
                emitters := (emitters w)[channel t := []]\<rparr>)
       \<and> e \<notin> set (errors_of (fst (runTests cfg wk beh order fbe iv w0)))
       \<and> (dispatched wk fbe iv w0 = ts1 @ t # ts2 \<longrightarrow> beh (data t) = b \<longrightarrow>
            {..<length (dispatched wk fbe iv w0)} \<subseteq> set order \<longrightarrow>
            errors_of (fst (runTests cfg wk beh order fbe iv w0))
              = concat (map (genuine_errors \<circ> classify \<circ> beh \<circ> data) ts1)
                @ concat (map (genuine_errors \<circ> classify \<circ> beh \<circ> data) ts2))"
proof -
  have c: "classify b = WorkerTerminationTimeout"
    using assms by (simp add: classify_def)
  have "e \<notin> set (errors_of (fst (runTests cfg wk beh order fbe iv w0)))"
  proof
    assume "e \<in> set (errors_of (fst (runTests cfg wk beh order fbe iv w0)))"
    then obtain t' :: task where "classify (beh (data t')) = GenuineTaskError e"
      using errors_of_genuine by blast
    with assms(2) show False
      by (auto simp add: classify_def split: option.splits if_splits)
  qed
  then show ?thesis
    by (auto simp add: runFiles_settle_eq c errors_of_runTests)
qed

text \<open>An error that matches both patterns, under a cancellation: the timeout cause is
  recorded; and a dispatch in which two workers are stuck: the aggregate holds the one
  ordinary error.\<close>

theorem termination_timeout_swallowed_witness:
  "runFiles_settle example_config example_task (settles (Some stuck_and_cancelled) True)
        started_world
       = (fulfilled,
          started_world\<lparr>state := [AddProcessTimeoutCause
                ''Failed to terminate worker while running a.test.ts.''],
            emitters := [[]]\<rparr>)
   \<and> stuck_and_cancelled \<notin> set (errors_of (fst (runTests example_config
        ''/dist/workers/vmForks.js'' stuck_workers [2, 0, 1] example_filesByEnv [] example_world)))
   \<and> errors_of (fst (runTests example_config ''/dist/workers/vmForks.js'' stuck_workers [2, 0, 1]
        example_filesByEnv [] example_world)) = [Error ''boom'']"
proof -
  define D where "D = dispatched ''/dist/workers/vmForks.js'' example_filesByEnv [] example_world"
  have h: "outcome (settles (Some stuck_and_cancelled) True) = Some stuck_and_cancelled"
    "error_matches ''Failed to terminate worker'' stuck_and_cancelled"
    by (simp_all add: settles_def stuck_and_cancelled_def)
  note T = termination_timeout_swallowed [OF h, where cfg = example_config
      and wk = "''/dist/workers/vmForks.js''" and fbe = example_filesByEnv and iv = "[]"
      and ?w0.0 = example_world and beh = stuck_workers and order = "[2, 0, 1]"]
  have a: "runFiles_settle example_config example_task (settles (Some stuck_and_cancelled) True)
        started_world
       = (fulfilled,
          started_world\<lparr>state := [AddProcessTimeoutCause
                ''Failed to terminate worker while running a.test.ts.''],
            emitters := [[]]\<rparr>)"
    using T [where t = example_task and w = started_world, THEN conjunct1]
    by (simp add: example_task_def started_world_def example_world_def)
  have b: "stuck_and_cancelled \<notin> set (errors_of (fst (runTests example_config
        ''/dist/workers/vmForks.js'' stuck_workers [2, 0, 1] example_filesByEnv [] example_world)))"
    using T [THEN conjunct2, THEN conjunct1] .
  have len: "length D = 3"
    by (simp add: D_def dispatched_length example_filesByEnv_def)
  have dec: "D = take 2 D @ D ! 2 # drop 3 D"
    using len id_take_nth_drop [of 2 D] by simp
  have third: "stuck_workers (data (D ! 2)) = settles (Some stuck_and_cancelled) True"
    unfolding D_def by code_simp
  have all: "{..<length D} \<subseteq> set [2, 0, 1]"
    unfolding len by code_simp
  have e1: "concat (map (genuine_errors \<circ> classify \<circ> stuck_workers \<circ> data) (take 2 D)) = [Error ''boom'']"
    unfolding D_def by code_simp
  have e2: "concat (map (genuine_errors \<circ> classify \<circ> stuck_workers \<circ> data) (drop 3 D)) = []"
    unfolding D_def by code_simp
  have c: "errors_of (fst (runTests example_config ''/dist/workers/vmForks.js'' stuck_workers [2, 0, 1]
        example_filesByEnv [] example_world)) = [Error ''boom'']"
    using T [where t = "D ! 2" and ?ts1.0 = "take 2 D" and ?ts2.0 = "drop 3 D",
        THEN conjunct2, THEN conjunct2] dec third all
    by (simp add: D_def [symmetric] e1 e2)
  show ?thesis using a b c by simp
qed

text \<open>
  Claim C10. A rejection that is not an \<^verbatim>\<open>Error\<close> object is rethrown by \<^verbatim>\<open>runFiles\<close>,
  without a call on the state, whatever its text and whether or not a cancellation is in
  effect; the dispatch then throws, and the aggregate holds the value at the task's place.
\<close>

theorem non_error_rejection_rethrown:
  assumes "outcome b = Some (NonError v)"
  shows "runFiles_settle cfg t b w
           = (rejected (NonError v), w\<lparr>emitters := (emitters w)[channel t := []]\<rparr>)
       \<and> (dispatched wk fbe iv w0 = ts1 @ t # ts2 \<longrightarrow> beh (data t) = b \<longrightarrow>
            {..<length (dispatched wk fbe iv w0)} \<subseteq> set order \<longrightarrow>
            fst (runTests cfg wk beh order fbe iv w0)
              = Some (Inl (AggregateError
                  (concat (map (genuine_errors \<circ> classify \<circ> beh \<circ> data) ts1)
                   @ [NonError v]
                   @ concat (map (genuine_errors \<circ> classify \<circ> beh \<circ> data) ts2))
                  ''Errors occurred while running tests. For more information, see serialized error.'')))"
proof -
  have c: "classify b = GenuineTaskError (NonError v)"
    using assms by (simp add: classify_def)
  show ?thesis
    by (auto simp add: runFiles_settle_eq c runTests_result)
qed

text \<open>Thrown strings that read like the two patterns, one of them under a cancellation:
  both are in the aggregate.\<close>

theorem non_error_rejection_rethrown_witness:
  "runFiles_settle example_config example_task
        (settles (Some (NonError ''Failed to terminate worker'')) True) started_world
       = (rejected (NonError ''Failed to terminate worker''), started_world\<lparr>emitters := [[]]\<rparr>)
   \<and> fst (runTests example_config ''/dist/workers/vmForks.js'' thrown_values [2, 0, 1]
        example_filesByEnv [] example_world)
       = Some (Inl (AggregateError
           [NonError ''Failed to terminate worker'', NonError ''The task has been cancelled'']
           ''Errors occurred while running tests. For more information, see serialized error.''))"
proof -
  define D where "D = dispatched ''/dist/workers/vmForks.js'' example_filesByEnv [] example_world"
  have h1: "outcome (settles (Some (NonError ''Failed to terminate worker'')) True)
      = Some (NonError ''Failed to terminate worker'')"
    by (simp add: settles_def)
  have a: "runFiles_settle example_config example_task
        (settles (Some (NonError ''Failed to terminate worker'')) True) started_world
       = (rejected (NonError ''Failed to terminate worker''), started_world\<lparr>emitters := [[]]\<rparr>)"
    using non_error_rejection_rethrown [OF h1, where cfg = example_config and t = example_task
        and w = started_world, THEN conjunct1]
    by (simp add: example_task_def started_world_def)
  have h2: "outcome (settles (Some (NonError ''The task has been cancelled'')) True)
      = Some (NonError ''The task has been cancelled'')"
    by (simp add: settles_def)
  have len: "length D = 3"
    by (simp add: D_def dispatched_length example_filesByEnv_def)
  have dec: "D = take 2 D @ D ! 2 # drop 3 D"
    using len id_take_nth_drop [of 2 D] by simp
  have third: "thrown_values (data (D ! 2)) = settles (Some (NonError ''The task has been cancelled'')) True"
    unfolding D_def by code_simp
  have all: "{..<length D} \<subseteq> set [2, 0, 1]"
    unfolding len by code_simp
  have e1: "concat (map (genuine_errors \<circ> classify \<circ> thrown_values \<circ> data) (take 2 D))
      = [NonError ''Failed to terminate worker'']"
    unfolding D_def by code_simp
  have e2: "concat (map (genuine_errors \<circ> classify \<circ> thrown_values \<circ> data) (drop 3 D)) = []"
    unfolding D_def by code_simp
  have b: "fst (runTests example_config ''/dist/workers/vmForks.js'' thrown_values [2, 0, 1]
        example_filesByEnv [] example_world)
       = Some (Inl (AggregateError
           [NonError ''Failed to terminate worker'', NonError ''The task has been cancelled'']
           ''Errors occurred while running tests. For more information, see serialized error.''))"
    using non_error_rejection_rethrown [OF h2, where cfg = example_config
        and wk = "''/dist/workers/vmForks.js''" and fbe = example_filesByEnv and iv = "[]"
        and ?w0.0 = example_world and beh = thrown_values and order = "[2, 0, 1]"
        and t = "D ! 2" and ?ts1.0 = "take 2 D" and ?ts2.0 = "drop 3 D", THEN conjunct2]
      dec third all
    by (simp add: D_def [symmetric] e1 e2)
  show ?thesis using a b by simp
qed

subsection \<open>Releasing the channel\<close>

text \<open>
  Claim C7. However a task settles, \<^verbatim>\<open>runFiles\<close> leaves the task's emitter without
  listeners. A dispatch creates one emitter for each file, each with the listener of the
  remote-call layer until its task settles; when every task has settled and no listener
  was registered before the dispatch, no listener is registered after it.
\<close>

theorem channel_listeners_released:
  "emitters (snd (runFiles_settle cfg t b w)) = (emitters w)[channel t := []]
   \<and> (channel t < length (emitters w) \<longrightarrow> emitters (snd (runFiles_settle cfg t b w)) ! channel t = [])
   \<and> emitters (snd (runTests cfg wk beh [] fbe iv w))
       = emitters w @ replicate (length (concat (map snd fbe))) [(''response'', RpcHandler)]
   \<and> length (emitters (snd (runTests cfg wk beh order fbe iv w)))
       = length (emitters w) + length (concat (map snd fbe))
   \<and> ({..<length (concat (map snd fbe))} \<subseteq> set order \<longrightarrow> concat (emitters w) = [] \<longrightarrow>
        concat (emitters (snd (runTests cfg wk beh order fbe iv w))) = [])"
proof -
  have a: "emitters (snd (runTests cfg wk beh [] fbe iv w))
       = emitters w @ replicate (length (concat (map snd fbe))) [(''response'', RpcHandler)]"
    using runTests_world [of cfg wk beh "[]" fbe iv w]
    by (simp add: dispatched_length map_replicate_const)
  have b: "concat (emitters (snd (runTests cfg wk beh order fbe iv w))) = []"
    if "{..<length (concat (map snd fbe))} \<subseteq> set order" and "concat (emitters w) = []"
  proof -
    have "map (\<lambda>j. if j \<in> set order then [] else [(''response'', RpcHandler)])
            [0..<length (concat (map snd fbe))]
        = map (\<lambda>j. []) [0..<length (concat (map snd fbe))]"
      using that(1) by (intro map_cong) auto
    then show ?thesis
      using runTests_world [of cfg wk beh order fbe iv w] that(2)
      by (simp add: dispatched_length)
  qed
  have c: "emitters (snd (runFiles_settle cfg t b w)) = (emitters w)[channel t := []]"
    by (simp add: runFiles_settle_eq)
  have d: "length (emitters (snd (runTests cfg wk beh order fbe iv w)))
       = length (emitters w) + length (concat (map snd fbe))"
    using runTests_world [of cfg wk beh order fbe iv w] by (simp add: dispatched_length)
  have e: "emitters (snd (runFiles_settle cfg t b w)) ! channel t = []"
    if "channel t < length (emitters w)"
    using that by (simp add: c)
  from a b c d e show ?thesis by blast
qed

text \<open>Three files: three emitters with one listener each while nothing has settled, none
  left when all have.\<close>

theorem channel_listeners_released_witness:
  "emitters (snd (runFiles_settle example_config example_task (settles None False) started_world))
     = [[]]
   \<and> emitters (snd (runTests example_config ''/dist/workers/vmForks.js'' one_failure []
        example_filesByEnv [] example_world))
       = [[(''response'', RpcHandler)], [(''response'', RpcHandler)], [(''response'', RpcHandler)]]
   \<and> length (emitters (snd (runTests example_config ''/dist/workers/vmForks.js'' one_failure
        [2, 0, 1] example_filesByEnv [] example_world))) = 3
   \<and> concat (emitters (snd (runTests example_config ''/dist/workers/vmForks.js'' one_failure
        [2, 0, 1] example_filesByEnv [] example_world))) = []"
proof -
  have a: "emitters (snd (runFiles_settle example_config example_task (settles None False)
      started_world)) = [[]]"
    using channel_listeners_released [where cfg = example_config and t = example_task
        and b = "settles None False" and w = started_world, THEN conjunct1]
    by (simp add: example_task_def started_world_def)
  note T = channel_listeners_released [where cfg = example_config
      and wk = "''/dist/workers/vmForks.js''" and beh = one_failure and fbe = example_filesByEnv
      and iv = "[]" and w = example_world and order = "[2, 0, 1]"]
  have n: "length (concat (map snd example_filesByEnv)) = 3"
    by (simp add: example_filesByEnv_def)
  have all: "{..<3::nat} \<subseteq> set [2, 0, 1]"
    by code_simp
  have e: "concat (emitters example_world) = []" "emitters example_world = []"
    by (simp_all add: example_world_def)
  have b: "emitters (snd (runTests example_config ''/dist/workers/vmForks.js'' one_failure []
        example_filesByEnv [] example_world))
       = [[(''response'', RpcHandler)], [(''response'', RpcHandler)], [(''response'', RpcHandler)]]"
    using T [THEN conjunct2, THEN conjunct2, THEN conjunct1]
    by (simp add: n e numeral_3_eq_3)
  have c: "length (emitters (snd (runTests example_config ''/dist/workers/vmForks.js'' one_failure
        [2, 0, 1] example_filesByEnv [] example_world))) = 3"
    using T [THEN conjunct2, THEN conjunct2, THEN conjunct2, THEN conjunct1]
    by (simp add: n e)
  have d: "concat (emitters (snd (runTests example_config ''/dist/workers/vmForks.js'' one_failure
        [2, 0, 1] example_filesByEnv [] example_world))) = []"
    using T [THEN conjunct2, THEN conjunct2, THEN conjunct2, THEN conjunct2] all e(1)
    unfolding n by blast
  show ?thesis using a b c d by simp
qed

subsection \<open>The task identifier\<close>

text \<open>
  Claim C8 as it is stated fails: the identifiers of a second call of the dispatch function
  do not start afresh. After a first call with three files the second call numbers its
  tasks 4, 5 and 6.
\<close>

theorem worker_ids_fresh_counterexample:
  "map (workerId \<circ> data) (dispatched ''/dist/workers/vmForks.js'' example_filesByEnv []
      (runWithFiles example_world)) = [1, 2, 3]
   \<and> map (workerId \<circ> data) (dispatched ''/dist/workers/vmForks.js'' example_filesByEnv []
      (snd (runTests example_config ''/dist/workers/vmForks.js'' one_failure [0, 1, 2]
              example_filesByEnv [] (runWithFiles example_world)))) = [4, 5, 6]"
  by code_simp

text \<open>
  Claim C8, amended. The counter belongs to the closure that one call of
  \<^verbatim>\<open>runWithFiles\<close> creates, where it starts at 0, and every call of the dispatch function
  of that closure shares it: a call that finds the counter at \<open>k\<close> gives its \<open>n\<close> tasks
  the identifiers \<open>k + 1, \<dots>, k + n\<close> in the order of submission and leaves the counter
  at \<open>k + n\<close> for the next call.
\<close>

theorem worker_ids_continue:
  "map (workerId \<circ> data) (dispatched wk fbe iv w)
     = [id_counter w + 1 ..< id_counter w + 1 + length (concat (map snd fbe))]
   \<and> id_counter (snd (runTests cfg wk beh order fbe iv w))
       = id_counter w + length (concat (map snd fbe))
   \<and> pool_runs (snd (runTests cfg wk beh order fbe iv w))
       = pool_runs w @ map data (dispatched wk fbe iv w)
   \<and> id_counter (runWithFiles w) = 0"
proof -
  have ids: "map (workerId \<circ> data) (dispatched wk fbe iv w)
     = [id_counter w + 1 ..< id_counter w + 1 + length (concat (map snd fbe))]"
    by (simp add: dispatched_def start_all_workerId)
  show ?thesis
    using runTests_world [of cfg wk beh order fbe iv w] ids
    by (simp add: dispatched_length runWithFiles_def)
qed

end
